theory Spec2Isabelle
  imports Main "HOL-Library.Sublist"
begin

section \<open>Python values, strings and dictionaries\<close>

text \<open>
  The test definitions come from a YAML file, so a field of a test case holds a scalar
  of any kind. \<open>py_str\<close> is Python's \<open>str()\<close> on such a scalar. A string is a list of
  characters; which of them the regular expression engine takes for word characters is
  left to the world the program runs in.
\<close>

datatype pyval = PNone | PBool bool | PInt int | PStr string

definition digit_char :: "nat \<Rightarrow> char" where
  "digit_char n = ''0123456789'' ! (n mod 10)"

fun digits :: "nat \<Rightarrow> string" where
  "digits n = (if n < 10 then [digit_char n] else digits (n div 10) @ [digit_char n])"

declare digits.simps [simp del]

definition str_int :: "int \<Rightarrow> string" where
  "str_int i = (if i < 0 then CHR ''-'' # digits (nat (- i)) else digits (nat i))"

fun py_str :: "pyval \<Rightarrow> string" where
  "py_str PNone = ''None''"
| "py_str (PBool b) = (if b then ''True'' else ''False'')"
| "py_str (PInt i) = str_int i"
| "py_str (PStr s) = s"

text \<open>
  A Python \<open>dict\<close> with string keys is an association list in insertion order with
  distinct keys: \<open>dict_get\<close> is \<open>d.get(k)\<close>, \<open>dict_set\<close> is \<open>d[k] = v\<close> and
  \<open>dict_update d e\<close> is the dictionary \<open>d\<close> after \<open>d.update(e)\<close>.
\<close>

type_synonym 'v dict = "(string \<times> 'v) list"

definition dict_get :: "'v dict \<Rightarrow> string \<Rightarrow> 'v option" where
  "dict_get d k = map_of d k"

fun dict_set :: "string \<Rightarrow> 'v \<Rightarrow> 'v dict \<Rightarrow> 'v dict" where
  "dict_set k v [] = [(k, v)]"
| "dict_set k v (p # d) = (if fst p = k then (k, v) # d else p # dict_set k v d)"

definition dict_update :: "'v dict \<Rightarrow> 'v dict \<Rightarrow> 'v dict" where
  "dict_update d e = foldl (\<lambda>acc p. dict_set (fst p) (snd p) acc) d e"

section \<open>Variable substitution (test\_runner.py, \_substitute\_variables)\<close>

text \<open>
  \<open>replace_match\<close> is the inner function of the source: the key is group 1 of the
  match, the default of the lookup is group 0, the whole placeholder.
\<close>

definition replace_match :: "pyval dict \<Rightarrow> string \<Rightarrow> string" where
  "replace_match variables key =
     py_str (case dict_get variables key of
               Some v \<Rightarrow> v
             | None \<Rightarrow> PStr (CHR ''{'' # key @ ''}''))"

text \<open>
  \<open>re_sub_placeholders isw vars s\<close> is \<open>re.sub(r'\{(\w+)\}', replace_match, s)\<close>, where
  \<open>isw\<close> is the class \<open>\w\<close> of the regular expression engine. The pattern is a \<open>str\<close>
  pattern compiled without \<open>re.ASCII\<close>, so the class is the Unicode one: it is a
  parameter of the model, of which only one fact is used, that it contains neither
  brace. The function is one scan from the left. At a position holding an opening brace
  followed by a non-empty maximal run of word characters and a closing brace the match
  is replaced and the scan goes on behind it; at any other position the character is
  copied. (A closing brace is no word character, so a shorter run of word characters is
  never followed by one and backtracking finds nothing more.)
\<close>

function re_sub_placeholders :: "(char \<Rightarrow> bool) \<Rightarrow> pyval dict \<Rightarrow> string \<Rightarrow> string" where
  "re_sub_placeholders isw variables [] = []"
| "re_sub_placeholders isw variables (c # cs) =
     (case dropWhile isw cs of
        [] \<Rightarrow> c # re_sub_placeholders isw variables cs
      | d # rest \<Rightarrow>
          if c = CHR ''{'' \<and> d = CHR ''}'' \<and> takeWhile isw cs \<noteq> []
          then replace_match variables (takeWhile isw cs)
                 @ re_sub_placeholders isw variables rest
          else c # re_sub_placeholders isw variables cs)"
  by pat_completeness auto

lemma length_dropWhile_tail:
  "dropWhile P cs = d # rest \<Longrightarrow> length rest < Suc (length cs)"
proof -
  assume h: "dropWhile P cs = d # rest"
  have "length (dropWhile P cs) \<le> length cs" by (rule length_dropWhile_le)
  with h show ?thesis by simp
qed

termination re_sub_placeholders
  by (relation "measure (\<lambda>(isw, variables, s). length s)") (auto dest: length_dropWhile_tail)

definition substitute_variables :: "(char \<Rightarrow> bool) \<Rightarrow> pyval \<Rightarrow> pyval dict \<Rightarrow> pyval" where
  "substitute_variables isw template variables =
     (case template of
        PStr s \<Rightarrow> PStr (re_sub_placeholders isw variables s)
      | other \<Rightarrow> other)"

section \<open>The document tree (xml\_parser.py)\<close>

text \<open>
  Modelled from the spec: the document tree and its search belong to the BeautifulSoup
  library, which is not part of the repository. Following sections 4.3 and 9 of the
  spec the tree is a typed tree of nodes (tag name, attribute mapping, children, text),
  and \<open>soup_find_all soup name attrs\<close>, for \<open>soup.find_all(name, attrs)\<close>, returns in
  document order every element of the tree with exactly this name whose attributes
  have exactly the wanted values. The model is meant for non-empty names and values.
\<close>

datatype node = Tag string "string dict" "node list" | NavigableString string

type_synonym soup = "node list"

fun tags_of :: "node \<Rightarrow> node list" where
  "tags_of (NavigableString s) = []"
| "tags_of (Tag n a cs) = Tag n a cs # concat (map tags_of cs)"

definition all_tags :: "soup \<Rightarrow> node list" where
  "all_tags soup = concat (map tags_of soup)"

fun tag_matches :: "string \<Rightarrow> string dict \<Rightarrow> node \<Rightarrow> bool" where
  "tag_matches nm wanted (NavigableString s) = False"
| "tag_matches nm wanted (Tag n a cs) =
     (n = nm \<and> list_all (\<lambda>p. dict_get a (fst p) = Some (snd p)) wanted)"

definition soup_find_all :: "soup \<Rightarrow> string \<Rightarrow> string dict \<Rightarrow> node list" where
  "soup_find_all soup nm wanted = filter (tag_matches nm wanted) (all_tags soup)"

definition soup_find :: "soup \<Rightarrow> string \<Rightarrow> node option" where
  "soup_find soup nm = (case soup_find_all soup nm [] of [] \<Rightarrow> None | t # ts \<Rightarrow> Some t)"

section \<open>The outside world\<close>

text \<open>
  What the program calls and the repository does not contain is a parameter of the
  model: the HTTP transport (\<open>requests.request\<close>) with the clock around it, the XML
  parser, the CSS selector engine, the pretty printer and the regular expression
  engine. A call that can raise returns an option or a sum.
\<close>

record request =
  rq_verb :: string
  rq_url :: string
  rq_headers :: "pyval dict"
  rq_data :: pyval
  rq_params :: "pyval dict option"
  rq_timeout :: nat

text \<open>
  An exception of the \<open>requests\<close> library (one that derives from \<open>RequestException\<close>)
  with the two \<open>isinstance\<close> tests the client makes and its \<open>str()\<close>. A connect timeout
  is both a \<open>Timeout\<close> and a \<open>ConnectionError\<close>.
\<close>

datatype request_exception =
  RequestException (is_timeout: bool) (is_connection_error: bool) (reason: string)

text \<open>
  The exceptions that nothing in the program catches where they arise: \<open>re.error\<close> from
  the regular expression engine, and the \<open>TypeError\<close> and \<open>ValueError\<close> that
  \<open>requests.request\<close> raises outside its own exception classes (for a body that is a
  number, for a timeout of 0).
\<close>

datatype py_exception = RegexError | TypeError | ValueError

text \<open>
  What a call of \<open>requests.request\<close> does: it returns a response (status code, headers,
  text), raises one of the library's exceptions, or raises another exception.
\<close>

datatype transport_result =
  Response int "string dict" string
| Raises request_exception
| Escapes py_exception

record world =
  http_request :: "request \<Rightarrow> transport_result \<times> nat"
  bs_parse :: "string \<Rightarrow> soup option"
  bs_select :: "soup \<Rightarrow> string \<Rightarrow> node list option"
  bs_prettify :: "soup \<Rightarrow> string"
  re_search :: "string \<Rightarrow> string \<Rightarrow> bool option"
  re_word :: "char \<Rightarrow> bool"

text \<open>
  \<open>http_request w rq\<close> is the outcome of \<open>requests.request\<close> on \<open>rq\<close> and the
  milliseconds the clock measured around the call; \<open>bs_parse w s\<close> is
  \<open>BeautifulSoup(s, 'xml')\<close>, \<open>None\<close> when it raises; \<open>bs_select w soup sel\<close> is
  \<open>soup.select(sel)\<close>, \<open>None\<close> when the selector is refused with an exception;
  \<open>re_search w pat s\<close> says whether \<open>re.search(pat, s, re.DOTALL)\<close> finds a match, and is
  \<open>None\<close> when the pattern does not compile (\<open>re.error\<close>); \<open>re_word w c\<close> says whether
  the engine's class \<open>\w\<close> contains the character \<open>c\<close>.
\<close>

section \<open>XMLParser (xml\_parser.py)\<close>

definition XMLParser :: "world \<Rightarrow> string \<Rightarrow> soup option" where
  "XMLParser w xml_content = (if xml_content = [] then None else bs_parse w xml_content)"

text \<open>
  \<open>split_once sep s\<close> is \<open>a, b = s.split(sep, 1)\<close>: the unpacking raises \<open>ValueError\<close>
  (here \<open>None\<close>) when \<open>s\<close> does not contain the separator. \<open>py_strip P s\<close> is \<open>s.strip(...)\<close>
  for the characters satisfying \<open>P\<close>.
\<close>

definition split_once :: "char \<Rightarrow> string \<Rightarrow> (string \<times> string) option" where
  "split_once sep s =
     (if sep \<in> set s
      then Some (takeWhile (\<lambda>c. c \<noteq> sep) s, tl (dropWhile (\<lambda>c. c \<noteq> sep) s))
      else None)"

definition py_strip :: "(char \<Rightarrow> bool) \<Rightarrow> string \<Rightarrow> string" where
  "py_strip P s = rev (dropWhile P (rev (dropWhile P s)))"

definition quote_char :: "char \<Rightarrow> bool" where
  "quote_char c \<longleftrightarrow> c = CHR 0x27 \<or> c = CHR 0x22"

definition space_char :: "char \<Rightarrow> bool" where
  "space_char c \<longleftrightarrow>
     c \<in> {CHR '' '', CHR 0x09, CHR 0x0A, CHR 0x0B, CHR 0x0C, CHR 0x0D,
          CHR 0x1C, CHR 0x1D, CHR 0x1E, CHR 0x1F}"

text \<open>
  The first step of \<open>validate_xpath_like\<close>: the result of the attribute filter, or
  \<open>None\<close> when the expression has no bracket pair or the \<open>ValueError\<close> of the missing
  \<open>=\<close> was swallowed.
\<close>

definition attribute_filter :: "soup \<Rightarrow> string \<Rightarrow> bool option" where
  "attribute_filter soup e =
     (if CHR ''['' \<in> set e \<and> CHR '']'' \<in> set e then
        (case split_once (CHR ''['') e of
           None \<Rightarrow> None
         | Some (tag_name, attr_part) \<Rightarrow>
             (case split_once (CHR ''='') (butlast attr_part) of
                None \<Rightarrow> None
              | Some (attr_name, attr_value) \<Rightarrow>
                  Some (soup_find_all soup tag_name
                          [(attr_name, py_strip quote_char attr_value)] \<noteq> [])))
      else None)"

text \<open>\<open>e.replace('//', ' ')\<close> and \<open>e.replace('/', ' > ')\<close>.\<close>

fun replace_double_slash :: "string \<Rightarrow> string" where
  "replace_double_slash (c # d # cs) =
     (if c = CHR ''/'' \<and> d = CHR ''/'' then CHR '' '' # replace_double_slash cs
      else c # replace_double_slash (d # cs))"
| "replace_double_slash cs = cs"

fun replace_slash :: "string \<Rightarrow> string" where
  "replace_slash [] = []"
| "replace_slash (c # cs) =
     (if c = CHR ''/'' then '' > '' @ replace_slash cs else c # replace_slash cs)"

definition css_selector :: "string \<Rightarrow> string" where
  "css_selector e = replace_slash (replace_double_slash e)"

text \<open>\<open>e.split('/')[-1].split('[')[0].strip()\<close>\<close>

definition fallback_tag :: "string \<Rightarrow> string" where
  "fallback_tag e =
     py_strip space_char
       (takeWhile (\<lambda>c. c \<noteq> CHR ''['') (rev (takeWhile (\<lambda>c. c \<noteq> CHR ''/'') (rev e))))"

definition validate_xpath_like :: "world \<Rightarrow> soup option \<Rightarrow> string \<Rightarrow> bool" where
  "validate_xpath_like w self_soup e =
     (case self_soup of
        None \<Rightarrow> False
      | Some soup \<Rightarrow>
          (case attribute_filter soup e of
             Some found \<Rightarrow> found
           | None \<Rightarrow>
               (case bs_select w soup (css_selector e) of
                  Some selected \<Rightarrow> selected \<noteq> []
                | None \<Rightarrow> soup_find soup (fallback_tag e) \<noteq> None)))"

definition validate_content_regex ::
  "world \<Rightarrow> soup option \<Rightarrow> string \<Rightarrow> py_exception + bool" where
  "validate_content_regex w self_soup regex_pattern =
     (case self_soup of
        None \<Rightarrow> Inr False
      | Some soup \<Rightarrow>
          if bs_prettify w soup = [] then Inr False
          else (case re_search w regex_pattern (bs_prettify w soup) of
                  None \<Rightarrow> Inl RegexError
                | Some b \<Rightarrow> Inr b))"

section \<open>HTTPClient (http\_client.py)\<close>

record http_client =
  base_url :: string
  timeout :: nat
  default_headers :: "pyval dict"

record response =
  status_code :: "int option"
  headers :: "string dict"
  content :: string
  response_time_ms :: nat
  success :: bool
  error :: "string option"

definition build_url :: "http_client \<Rightarrow> string \<Rightarrow> string" where
  "build_url self path = base_url self @ path"

text \<open>
  \<open>build_request\<close> collects the arguments of \<open>requests.request\<close>. \<open>send_request\<close> takes
  the calls of \<open>requests.request\<close> made so far and returns them with its own appended:
  the network traffic is part of the state. The \<open>except\<close> clauses are tried in the order
  of the source; they name classes of the \<open>requests\<close> library only, so any other
  exception leaves \<open>send_request\<close>.
\<close>

definition build_request ::
  "http_client \<Rightarrow> string \<Rightarrow> string \<Rightarrow> pyval dict option \<Rightarrow> pyval \<Rightarrow> pyval dict option \<Rightarrow>
   request" where
  "build_request self verb path hdrs data params =
     \<lparr>rq_verb = verb, rq_url = build_url self path,
      rq_headers =
        dict_update (default_headers self) (case hdrs of Some h \<Rightarrow> h | None \<Rightarrow> []),
      rq_data = data, rq_params = params, rq_timeout = timeout self\<rparr>"

definition send_request ::
  "world \<Rightarrow> http_client \<Rightarrow> string \<Rightarrow> string \<Rightarrow> pyval dict option \<Rightarrow> pyval \<Rightarrow>
   pyval dict option \<Rightarrow> request list \<Rightarrow> (py_exception + response) \<times> request list" where
  "send_request w self verb path hdrs data params sent_before =
     (let rq = build_request self verb path hdrs data params;
          response_time = snd (http_request w rq)
      in ((case fst (http_request w rq) of
             Response code hs body \<Rightarrow>
               Inr \<lparr>status_code = Some code, headers = hs, content = body,
                    response_time_ms = response_time, success = True, error = None\<rparr>
           | Raises e \<Rightarrow>
               if is_timeout e then
                 Inr \<lparr>status_code = None, headers = [], content = ''Request Timed Out'',
                      response_time_ms = response_time, success = False,
                      error = Some ''Timeout''\<rparr>
               else if is_connection_error e then
                 Inr \<lparr>status_code = None, headers = [], content = ''Connection Error'',
                      response_time_ms = response_time, success = False,
                      error = Some ''ConnectionError''\<rparr>
               else
                 Inr \<lparr>status_code = None, headers = [],
                      content = ''An unexpected request error occurred: '' @ reason e,
                      response_time_ms = response_time, success = False,
                      error = Some (reason e)\<rparr>
           | Escapes exn \<Rightarrow> Inl exn),
          sent_before @ [rq]))"

section \<open>StatsCollector (stats\_collector.py)\<close>

record details =
  d_status_code :: "int option"
  d_response_time_ms :: nat
  d_response_success :: bool
  validation_results :: "bool dict"

text \<open>
  A recorded result; the wall-clock timestamp is left out. \<open>details = None\<close> stands for
  the empty dictionary the collector stores when no details are given.
\<close>

record test_result =
  test_name :: string
  status :: string
  result_time_ms :: "nat option"
  details :: "details option"
  error_message :: "string option"

record stats =
  total_tests :: nat
  passed_tests :: nat
  failed_tests :: nat
  skipped_tests :: nat
  test_results :: "test_result list"

definition StatsCollector :: stats where
  "StatsCollector =
     \<lparr>total_tests = 0, passed_tests = 0, failed_tests = 0, skipped_tests = 0,
      test_results = []\<rparr>"

definition record_test_result ::
  "stats \<Rightarrow> string \<Rightarrow> string \<Rightarrow> nat option \<Rightarrow> details option \<Rightarrow> string option \<Rightarrow> stats" where
  "record_test_result self name st rt det msg =
     (let s1 = self\<lparr>total_tests := total_tests self + 1\<rparr>;
          result = \<lparr>test_name = name, status = st, result_time_ms = rt, details = det,
                    error_message = msg\<rparr>;
          s2 = (if st = ''PASS'' then s1\<lparr>passed_tests := passed_tests s1 + 1\<rparr>
                else if st = ''FAIL'' then s1\<lparr>failed_tests := failed_tests s1 + 1\<rparr>
                else if st = ''SKIP'' then s1\<lparr>skipped_tests := skipped_tests s1 + 1\<rparr>
                else if st = ''ERROR'' then s1\<lparr>failed_tests := failed_tests s1 + 1\<rparr>
                else s1)
      in s2\<lparr>test_results := test_results s2 @ [result]\<rparr>)"

section \<open>TestRunner (test\_runner.py)\<close>

text \<open>
  A test case is one mapping of the configuration's \<open>tests\<close> list; a field is \<open>None\<close>
  when the key is missing. \<open>tc_verb\<close> is the key \<open>method\<close>.
\<close>

record test_case =
  tc_name :: "string option"
  tc_verb :: "string option"
  tc_path :: "string option"
  tc_expected_status :: "int option"
  tc_body :: pyval
  tc_headers :: "pyval dict option"
  tc_params :: "pyval dict option"
  tc_validation_xpath :: "string option"
  tc_validation_regex :: "string option"

text \<open>
  What a run changes: the collector's statistics and the calls of \<open>requests.request\<close>
  made.
\<close>

record run_state =
  collector :: stats
  network :: "request list"

text \<open>Python's truth value of an optional string, integer, list or dictionary.\<close>

definition truthy :: "'a list option \<Rightarrow> bool" where
  "truthy x = (case x of None \<Rightarrow> False | Some xs \<Rightarrow> xs \<noteq> [])"

definition truthy_int :: "int option \<Rightarrow> bool" where
  "truthy_int x = (case x of None \<Rightarrow> False | Some i \<Rightarrow> i \<noteq> 0)"

definition upper_char :: "char \<Rightarrow> char" where
  "upper_char c =
     (case map_of (zip ''abcdefghijklmnopqrstuvwxyz'' ''ABCDEFGHIJKLMNOPQRSTUVWXYZ'') c of
        Some u \<Rightarrow> u
      | None \<Rightarrow> c)"

definition upper :: "string \<Rightarrow> string" where
  "upper s = map upper_char s"

text \<open>
  \<open>(error_message + "; " if error_message else "") + reason\<close>
\<close>

definition add_reason :: "string option \<Rightarrow> string \<Rightarrow> string option" where
  "add_reason msg r =
     Some ((if truthy msg then the msg @ ''; '' else []) @ r)"

definition quoted :: "string \<Rightarrow> string" where
  "quoted s = CHR 0x27 # s @ [CHR 0x27]"

text \<open>
  The XPath step and the regex step of the validation phase (lines 130 to 148). Each
  takes and returns the triple of \<open>xml_validation_pass\<close>, the validation results and
  the error message.
\<close>

type_synonym verdict = "bool \<times> bool dict \<times> string option"

definition xpath_step :: "world \<Rightarrow> soup option \<Rightarrow> string option \<Rightarrow> verdict \<Rightarrow> verdict" where
  "xpath_step w parser_soup validation_xpath v =
     (case v of (xml_validation_pass, results, msg) \<Rightarrow>
        if truthy validation_xpath then
          (let xpath_result = validate_xpath_like w parser_soup (the validation_xpath);
               results' = dict_set ''xpath_validation'' xpath_result results
           in if xpath_result then (xml_validation_pass, results', msg)
              else (False, results',
                    add_reason msg
                      (''XPath validation failed for '' @ quoted (the validation_xpath))))
        else v)"

definition regex_step ::
  "world \<Rightarrow> soup option \<Rightarrow> string option \<Rightarrow> verdict \<Rightarrow> py_exception + verdict" where
  "regex_step w parser_soup validation_regex v =
     (case v of (xml_validation_pass, results, msg) \<Rightarrow>
        if truthy validation_regex then
          (case validate_content_regex w parser_soup (the validation_regex) of
             Inl exn \<Rightarrow> Inl exn
           | Inr regex_result \<Rightarrow>
               (let results' = dict_set ''regex_validation'' regex_result results
                in if regex_result then Inr (xml_validation_pass, results', msg)
                   else Inr (False, results',
                             add_reason msg
                               (''Regex validation failed for '' @ quoted (the validation_regex)))))
        else Inr v)"

text \<open>
  Lines 103 to 154: from the response to the test status, the details and the error
  message, or the exception that leaves the function.
\<close>

definition evaluate_response ::
  "world \<Rightarrow> int option \<Rightarrow> string option \<Rightarrow> string option \<Rightarrow> response \<Rightarrow>
   py_exception + (string \<times> details \<times> string option)" where
  "evaluate_response w expected_status validation_xpath validation_regex rsp =
     (let det = \<lparr>d_status_code = status_code rsp,
                 d_response_time_ms = response_time_ms rsp,
                 d_response_success = success rsp,
                 validation_results = []\<rparr>
      in if \<not> success rsp then
           Inr (''FAIL'', det,
                Some (''HTTP Request failed: '' @
                      (case error rsp of Some e \<Rightarrow> e | None \<Rightarrow> ''Unknown Error'')))
         else if truthy_int expected_status \<and> status_code rsp \<noteq> expected_status then
           Inr (''FAIL'', det,
                Some (''Expected status '' @ str_int (the expected_status) @ '', got '' @
                      (case status_code rsp of Some c \<Rightarrow> str_int c | None \<Rightarrow> ''None'')))
         else
           (let parser_soup = XMLParser w (content rsp) in
            if parser_soup = None \<and> content rsp \<noteq> [] then
              Inr (''FAIL'', det\<lparr>validation_results := [(''xml_parseable'', False)]\<rparr>,
                   Some ''Could not parse XML response.'')
            else
              (case regex_step w parser_soup validation_regex
                      (xpath_step w parser_soup validation_xpath
                         (True, [(''xml_parseable'', True)], None)) of
                 Inl exn \<Rightarrow> Inl exn
               | Inr (xml_validation_pass, results, msg) \<Rightarrow>
                   Inr (if xml_validation_pass \<and> success rsp \<and>
                           (status_code rsp = expected_status \<or> \<not> truthy_int expected_status)
                        then ''PASS'' else ''FAIL'',
                        det\<lparr>validation_results := results\<rparr>, msg))))"

text \<open>
  Lines 76 to 79. \<open>test_case.get('params', {})\<close> is the dictionary stored in the test
  case when the key is there, and \<open>update\<close> changes that very object; it is a fresh
  dictionary otherwise.
\<close>

definition current_params :: "test_case \<Rightarrow> pyval dict option \<Rightarrow> pyval dict" where
  "current_params tc override_params =
     (let params = (case tc_params tc of Some p \<Rightarrow> p | None \<Rightarrow> [])
      in if truthy override_params then dict_update params (the override_params) else params)"

definition apply_overrides :: "test_case \<Rightarrow> pyval dict option \<Rightarrow> test_case" where
  "apply_overrides tc override_params =
     (case tc_params tc of
        None \<Rightarrow> tc
      | Some p \<Rightarrow> tc\<lparr>tc_params := Some (current_params tc override_params)\<rparr>)"

text \<open>
  Line 53, and lines 63 to 91: the substitutions and the call of the client.
\<close>

definition test_name_of :: "test_case \<Rightarrow> string" where
  "test_name_of tc = (case tc_name tc of Some n \<Rightarrow> n | None \<Rightarrow> ''Unnamed Test'')"

definition dispatch ::
  "world \<Rightarrow> http_client \<Rightarrow> test_case \<Rightarrow> pyval dict \<Rightarrow> request list \<Rightarrow>
   (py_exception + response) \<times> request list" where
  "dispatch w client tc params sent_before =
     (let verb = upper (case tc_verb tc of Some m \<Rightarrow> m | None \<Rightarrow> ''GET'');
          path = re_sub_placeholders (re_word w) params (the (tc_path tc));
          body = substitute_variables (re_word w) (tc_body tc) params;
          substituted_headers =
            map (\<lambda>p. (fst p, substitute_variables (re_word w) (snd p) params))
              (case tc_headers tc of Some h \<Rightarrow> h | None \<Rightarrow> [])
      in send_request w client verb path (Some substituted_headers) body (Some params)
           sent_before)"

text \<open>
  One round of the loop of \<open>run_tests\<close> (lines 53 to 163): the exception that ended it
  if any, the test case as the round leaves it, and the new state. \<open>dispatch\<close> is only
  reached with a path that is a non-empty string.
\<close>

definition run_test_case ::
  "world \<Rightarrow> http_client \<Rightarrow> string list option \<Rightarrow> pyval dict option \<Rightarrow> test_case \<Rightarrow>
   run_state \<Rightarrow> py_exception option \<times> test_case \<times> run_state" where
  "run_test_case w client test_names_to_run override_params tc st =
     (if truthy test_names_to_run \<and> test_name_of tc \<notin> set (the test_names_to_run) then
        (None, tc,
         st\<lparr>collector := record_test_result (collector st) (test_name_of tc) ''SKIP'' None None
                             (Some ''Test not in run list.'')\<rparr>)
      else if \<not> truthy (tc_path tc) then
        (None, tc,
         st\<lparr>collector := record_test_result (collector st) (test_name_of tc) ''ERROR'' None None
                             (Some (''Missing '' @ quoted ''path'' @ '' in configuration.''))\<rparr>)
      else
        (let sent = dispatch w client tc (current_params tc override_params) (network st)
         in case fst sent of
              Inl exn \<Rightarrow>
                (Some exn, apply_overrides tc override_params, st\<lparr>network := snd sent\<rparr>)
            | Inr rsp \<Rightarrow>
                (case evaluate_response w (tc_expected_status tc) (tc_validation_xpath tc)
                        (tc_validation_regex tc) rsp of
                   Inl exn \<Rightarrow>
                     (Some exn, apply_overrides tc override_params,
                      st\<lparr>network := snd sent\<rparr>)
                 | Inr (test_status, det, msg) \<Rightarrow>
                     (None, apply_overrides tc override_params,
                      \<lparr>collector =
                         record_test_result (collector st) (test_name_of tc) test_status
                           (Some (response_time_ms rsp)) (Some det) msg,
                       network = snd sent\<rparr>))))"

text \<open>
  The loop over \<open>self.tests_config\<close>: an exception ends it, and the test cases not yet
  reached stay as they are.
\<close>

fun run_loop ::
  "world \<Rightarrow> http_client \<Rightarrow> string list option \<Rightarrow> pyval dict option \<Rightarrow> test_case list \<Rightarrow>
   run_state \<Rightarrow> py_exception option \<times> test_case list \<times> run_state" where
  "run_loop w client names ov [] st = (None, [], st)"
| "run_loop w client names ov (tc # tcs) st =
     (case run_test_case w client names ov tc st of
        (Some exn, tc', st') \<Rightarrow> (Some exn, tc' # tcs, st')
      | (None, tc', st') \<Rightarrow>
          (case run_loop w client names ov tcs st' of
             (r, tcs', st'') \<Rightarrow> (r, tc' # tcs', st'')))"

text \<open>
  \<open>run_tests\<close>: the exception that left it if any, the test cases after the run and the
  state after the run. Logging, the printed summary and the report file are left out.
\<close>

definition run_tests ::
  "world \<Rightarrow> http_client \<Rightarrow> test_case list \<Rightarrow> string list option \<Rightarrow> pyval dict option \<Rightarrow>
   run_state \<Rightarrow> py_exception option \<times> test_case list \<times> run_state" where
  "run_tests w client tests_config test_names_to_run override_params st =
     (if tests_config = [] then (None, tests_config, st)
      else run_loop w client test_names_to_run override_params tests_config st)"

text \<open>
  The merged parameter mapping in the spec's words: the case's own default parameters
  overlaid by the run-level overrides.
\<close>

definition merged_params :: "test_case \<Rightarrow> pyval dict option \<Rightarrow> pyval dict" where
  "merged_params tc override_params =
     dict_update (case tc_params tc of Some p \<Rightarrow> p | None \<Rightarrow> [])
       (case override_params of Some e \<Rightarrow> e | None \<Rightarrow> [])"

text \<open>The failed reasons of the spec, joined by a semicolon and a space.\<close>

fun join_reasons :: "string list \<Rightarrow> string" where
  "join_reasons [] = []"
| "join_reasons [r] = r"
| "join_reasons (r # rs) = r @ ''; '' @ join_reasons rs"

text \<open>
  The collector after a sequence of calls of \<open>record_test_result\<close>, one per entry of
  \<open>rs\<close> with that entry's fields as arguments.
\<close>

definition record_results :: "stats \<Rightarrow> test_result list \<Rightarrow> stats" where
  "record_results self rs =
     foldl (\<lambda>s r. record_test_result s (test_name r) (status r) (result_time_ms r)
                     (details r) (error_message r)) self rs"

definition valid_status :: "string \<Rightarrow> bool" where
  "valid_status st \<longleftrightarrow> st \<in> {''PASS'', ''FAIL'', ''SKIP'', ''ERROR''}"

definition count_status :: "string list \<Rightarrow> test_result list \<Rightarrow> nat" where
  "count_status sts rs = length (filter (\<lambda>r. status r \<in> set sts) rs)"

section \<open>Concrete inputs\<close>

definition ex_results :: "test_result list" where
  "ex_results =
     [\<lparr>test_name = ''A'', status = ''PASS'', result_time_ms = Some 120, details = None,
       error_message = None\<rparr>,
      \<lparr>test_name = ''B'', status = ''ERROR'', result_time_ms = None, details = None,
       error_message = Some ''Connection refused''\<rparr>,
      \<lparr>test_name = ''C'', status = ''SKIP'', result_time_ms = None, details = None,
       error_message = None\<rparr>]"

text \<open>
  A small world for evaluating the model. Its characters are the code points below 256,
  and its word characters are those that \<open>\w\<close> matches among them. Its transport
  refuses a timeout of 0 with \<open>ValueError\<close> and a body that is a non-zero number with
  \<open>TypeError\<close>, as \<open>requests\<close> does, and its server has four special paths. Its parser
  knows two documents, its selector engine knows bare tag names, and its regular
  expression engine searches a pattern of plain characters as a substring and refuses the
  pattern that is a lone opening parenthesis, as \<open>re\<close> does.
\<close>

fun contains :: "string \<Rightarrow> string \<Rightarrow> bool" where
  "contains [] p = (p = [])"
| "contains (c # cs) p = (prefix p (c # cs) \<or> contains cs p)"

definition word_char :: "char \<Rightarrow> bool" where
  "word_char c \<longleftrightarrow>
     c \<in> set ''abcdefghijklmnopqrstuvwxyzABCDEFGHIJKLMNOPQRSTUVWXYZ0123456789_'' \<or>
     c \<in> {CHR 0xAA, CHR 0xB2, CHR 0xB3, CHR 0xB5, CHR 0xB9, CHR 0xBA, CHR 0xBC, CHR 0xBD,
          CHR 0xBE} \<or>
     (0xC0 \<le> (of_char c :: nat) \<and> c \<noteq> CHR 0xD7 \<and> c \<noteq> CHR 0xF7)"

definition ex_transport :: "request \<Rightarrow> transport_result \<times> nat" where
  "ex_transport rq =
     (if rq_timeout rq = 0 then (Escapes ValueError, 0)
      else if rq_url rq = ''http://api/slow''
      then (Raises (RequestException True True ''connect timed out''), 5000)
      else if rq_url rq = ''http://api/down''
      then (Raises (RequestException False True ''connection refused''), 3)
      else if rq_url rq = ''http://api/loop''
      then (Raises (RequestException False False ''Exceeded 30 redirects.''), 40)
      else if (case rq_data rq of PInt i \<Rightarrow> i \<noteq> 0 | other \<Rightarrow> False)
      then (Escapes TypeError, 2)
      else if rq_url rq = ''http://api/orders''
      then (Response 400 [] ''<error>bad order</error>'', 12)
      else (Response 200 [] ''<a><name>Widget</name></a>'', 8))"

definition ex_soup :: soup where
  "ex_soup = [Tag ''a'' [] [Tag ''name'' [] [NavigableString ''Widget'']]]"

definition ex_world :: world where
  "ex_world =
     \<lparr>http_request = ex_transport,
      bs_parse = (\<lambda>s. if s = ''<a><name>Widget</name></a>'' then Some ex_soup
                      else if s = ''<error>bad order</error>''
                      then Some [Tag ''error'' [] [NavigableString ''bad order'']]
                      else None),
      bs_select = (\<lambda>soup sel. if sel \<noteq> [] \<and> list_all word_char sel
                               then Some (soup_find_all soup sel []) else None),
      bs_prettify = (\<lambda>soup. if soup = ex_soup then ''<a><name>Widget</name></a>''
                             else ''<error>bad order</error>''),
      re_search = (\<lambda>pat s. if pat = ''('' then None else Some (contains s pat)),
      re_word = word_char\<rparr>"

definition ex_client :: http_client where
  "ex_client = \<lparr>base_url = ''http://api'', timeout = 10, default_headers = []\<rparr>"

definition ex_case :: test_case where
  "ex_case =
     \<lparr>tc_name = Some ''A'', tc_verb = None, tc_path = Some ''/items/{id}'',
      tc_expected_status = Some 200, tc_body = PNone, tc_headers = None,
      tc_params = Some [(''id'', PInt 1)], tc_validation_xpath = Some ''name'',
      tc_validation_regex = Some ''Widget''\<rparr>"

definition ex_state :: run_state where
  "ex_state = \<lparr>collector = StatsCollector, network = []\<rparr>"

definition ex_order :: test_case where
  "ex_order = ex_case\<lparr>tc_path := Some ''/orders'', tc_expected_status := Some 201\<rparr>"

definition ex_failing :: test_case where
  "ex_failing =
     ex_case\<lparr>tc_validation_xpath := Some ''price'', tc_validation_regex := Some ''Gadget''\<rparr>"

definition ex_order_soup :: soup where
  "ex_order_soup =
     [Tag ''root'' []
        [Tag ''order'' [(''id'', ''A1'')]
           [Tag ''item'' [(''id'', ''i1'')] [NavigableString ''Laptop''],
            Tag ''item'' [(''id'', ''i2'')] [NavigableString ''Mouse'']],
         Tag ''status'' [] [NavigableString ''active'']]]"

section \<open>Evaluation\<close>

text \<open>
  The definitions a concrete run unfolds.
\<close>

lemmas model_defs = run_test_case_def dispatch_def send_request_def build_request_def build_url_def
  evaluate_response_def xpath_step_def regex_step_def validate_xpath_like_def validate_content_regex_def
  attribute_filter_def css_selector_def fallback_tag_def XMLParser_def truthy_def truthy_int_def
  test_name_of_def current_params_def apply_overrides_def record_test_result_def add_reason_def quoted_def
  substitute_variables_def replace_match_def dict_get_def dict_update_def upper_def upper_char_def
  str_int_def digit_char_def word_char_def split_once_def py_strip_def quote_char_def space_char_def
  soup_find_all_def soup_find_def all_tags_def
  ex_world_def ex_transport_def ex_soup_def ex_client_def ex_case_def ex_state_def StatsCollector_def

section \<open>Variable substitution\<close>

lemma takeWhile_all: "list_all P xs \<Longrightarrow> \<not> P y \<Longrightarrow> takeWhile P (xs @ y # ys) = xs"
  by (induction xs) auto

lemma dropWhile_all: "list_all P xs \<Longrightarrow> \<not> P y \<Longrightarrow> dropWhile P (xs @ y # ys) = y # ys"
  by (induction xs) auto

lemma re_sub_placeholder:
  "key \<noteq> [] \<Longrightarrow> list_all isw key \<Longrightarrow> \<not> isw (CHR ''}'') \<Longrightarrow>
   re_sub_placeholders isw vs (CHR ''{'' # key @ CHR ''}'' # post) =
     replace_match vs key @ re_sub_placeholders isw vs post"
  by (simp add: takeWhile_all dropWhile_all)

lemma dropWhile_Nil_append:
  "dropWhile P cs = [] \<Longrightarrow> \<not> P y \<Longrightarrow> dropWhile P (cs @ y # ys) = y # ys"
  by (induction cs) (auto split: if_splits)

lemma dropWhile_Cons_append:
  "dropWhile P cs = d # rest \<Longrightarrow> dropWhile P (cs @ zs) = d # rest @ zs"
  by (induction cs) (auto split: if_splits)

lemma takeWhile_Cons_append:
  "dropWhile P cs = d # rest \<Longrightarrow> takeWhile P (cs @ zs) = takeWhile P cs"
  by (induction cs) (auto split: if_splits)

lemma re_sub_Cons_end:
  "dropWhile isw cs = [] \<Longrightarrow>
   re_sub_placeholders isw vs (c # cs) = c # re_sub_placeholders isw vs cs"
  by (simp del: dropWhile_eq_Nil_conv)

lemma re_sub_Cons_match:
  "dropWhile isw cs = d # rest \<Longrightarrow>
   c = CHR ''{'' \<and> d = CHR ''}'' \<and> takeWhile isw cs \<noteq> [] \<Longrightarrow>
   re_sub_placeholders isw vs (c # cs) =
     replace_match vs (takeWhile isw cs) @ re_sub_placeholders isw vs rest"
  by simp

lemma re_sub_Cons_copy:
  "dropWhile isw cs = d # rest \<Longrightarrow>
   \<not> (c = CHR ''{'' \<and> d = CHR ''}'' \<and> takeWhile isw cs \<noteq> []) \<Longrightarrow>
   re_sub_placeholders isw vs (c # cs) = c # re_sub_placeholders isw vs cs"
  by auto

lemma re_sub_append_brace:
  assumes nb: "\<not> isw (CHR ''{'')"
  shows "re_sub_placeholders isw vs (xs @ CHR ''{'' # ys) =
     re_sub_placeholders isw vs xs @ re_sub_placeholders isw vs (CHR ''{'' # ys)"
  using nb
proof (induction isw vs xs rule: re_sub_placeholders.induct)
  case (1 isw variables)
  show ?case by simp
next
  case (2 isw variables c cs)
  let ?tl = "CHR ''{'' # ys"
  note nb = \<open>\<not> isw (CHR ''{'')\<close>
  show ?case
  proof (cases "dropWhile isw cs")
    case Nil
    then have d: "dropWhile isw (cs @ ?tl) = ?tl"
      using nb by (simp add: dropWhile_Nil_append del: dropWhile_eq_Nil_conv)
    have ih: "re_sub_placeholders isw variables (cs @ ?tl) =
        re_sub_placeholders isw variables cs @ re_sub_placeholders isw variables ?tl"
      using Nil nb by (rule 2(1))
    have l: "re_sub_placeholders isw variables ((c # cs) @ ?tl) =
        c # re_sub_placeholders isw variables (cs @ ?tl)"
      using re_sub_Cons_copy [OF d, of c variables] by simp
    have r: "re_sub_placeholders isw variables (c # cs) =
        c # re_sub_placeholders isw variables cs"
      using Nil by (rule re_sub_Cons_end)
    show ?thesis unfolding l r ih by simp
  next
    case (Cons d rest)
    then have dw: "dropWhile isw (cs @ ?tl) = d # rest @ ?tl"
      and tw: "takeWhile isw (cs @ ?tl) = takeWhile isw cs"
      by (simp_all add: dropWhile_Cons_append takeWhile_Cons_append)
    show ?thesis
    proof (cases "c = CHR ''{'' \<and> d = CHR ''}'' \<and> takeWhile isw cs \<noteq> []")
      case True
      have ih: "re_sub_placeholders isw variables (rest @ ?tl) =
          re_sub_placeholders isw variables rest @ re_sub_placeholders isw variables ?tl"
        using Cons True nb by (intro 2(2)) simp_all
      have l: "re_sub_placeholders isw variables ((c # cs) @ ?tl) =
          replace_match variables (takeWhile isw cs) @
          re_sub_placeholders isw variables (rest @ ?tl)"
        using re_sub_Cons_match [OF dw, of c variables] True tw by simp
      have r: "re_sub_placeholders isw variables (c # cs) =
          replace_match variables (takeWhile isw cs) @
          re_sub_placeholders isw variables rest"
        using Cons True by (rule re_sub_Cons_match)
      show ?thesis unfolding l r ih by simp
    next
      case False
      have ih: "re_sub_placeholders isw variables (cs @ ?tl) =
          re_sub_placeholders isw variables cs @ re_sub_placeholders isw variables ?tl"
        using Cons False nb by (intro 2(3)) simp_all
      have l: "re_sub_placeholders isw variables ((c # cs) @ ?tl) =
          c # re_sub_placeholders isw variables (cs @ ?tl)"
        using re_sub_Cons_copy [OF dw, of c variables] False tw by simp
      have r: "re_sub_placeholders isw variables (c # cs) =
          c # re_sub_placeholders isw variables cs"
        using Cons False by (rule re_sub_Cons_copy)
      show ?thesis unfolding l r ih by simp
    qed
  qed
qed

lemma re_sub_no_brace: "CHR ''{'' \<notin> set s \<Longrightarrow> re_sub_placeholders isw vs s = s"
  by (induction isw vs s rule: re_sub_placeholders.induct) (auto split: list.splits)

text \<open>
  C6. Let \<open>isw\<close> be the class of word characters, which contains neither brace. A
  placeholder \<open>{key}\<close>, where \<open>key\<close> is one or more word characters, is replaced wherever
  it occurs in a template: the text before it and the text behind it are substituted on
  their own, and the placeholder itself becomes \<open>str()\<close> of the mapped value when the key
  is in the mapping and stays as it is, braces included, when the key is not. A template
  without an opening brace is unchanged, and a template that is not a string is returned
  as it is.
\<close>

theorem substitute_variables_placeholders:
  "(key \<noteq> [] \<and> list_all isw key \<and> \<not> isw (CHR ''{'') \<and> \<not> isw (CHR ''}'') \<longrightarrow>
      substitute_variables isw (PStr (pre @ ''{'' @ key @ ''}'' @ post)) vs =
        PStr (re_sub_placeholders isw vs pre @
              (case dict_get vs key of
                 Some v \<Rightarrow> py_str v
               | None \<Rightarrow> ''{'' @ key @ ''}'') @
              re_sub_placeholders isw vs post)) \<and>
   (CHR ''{'' \<notin> set s \<longrightarrow> substitute_variables isw (PStr s) vs = PStr s) \<and>
   ((\<forall>t. template \<noteq> PStr t) \<longrightarrow> substitute_variables isw template vs = template)"
proof (intro conjI impI)
  assume k: "key \<noteq> [] \<and> list_all isw key \<and> \<not> isw (CHR ''{'') \<and> \<not> isw (CHR ''}'')"
  have a: "re_sub_placeholders isw vs (pre @ CHR ''{'' # key @ CHR ''}'' # post) =
      re_sub_placeholders isw vs pre @
      re_sub_placeholders isw vs (CHR ''{'' # key @ CHR ''}'' # post)"
    using k by (intro re_sub_append_brace) simp
  have b: "re_sub_placeholders isw vs (CHR ''{'' # key @ CHR ''}'' # post) =
      replace_match vs key @ re_sub_placeholders isw vs post"
    using k by (intro re_sub_placeholder) simp_all
  have c: "replace_match vs key =
      (case dict_get vs key of Some v \<Rightarrow> py_str v | None \<Rightarrow> ''{'' @ key @ ''}'')"
    by (simp add: replace_match_def split: option.splits)
  show "substitute_variables isw (PStr (pre @ ''{'' @ key @ ''}'' @ post)) vs =
      PStr (re_sub_placeholders isw vs pre @
            (case dict_get vs key of Some v \<Rightarrow> py_str v | None \<Rightarrow> ''{'' @ key @ ''}'') @
            re_sub_placeholders isw vs post)"
    using a b c by (simp add: substitute_variables_def del: re_sub_placeholders.simps)
next
  assume "CHR ''{'' \<notin> set s"
  then show "substitute_variables isw (PStr s) vs = PStr s"
    by (simp add: substitute_variables_def re_sub_no_brace)
next
  assume "\<forall>t. template \<noteq> PStr t"
  then show "substitute_variables isw template vs = template"
    by (cases template) (simp_all add: substitute_variables_def)
qed

text \<open>
  In the example world, where the key may be the letter e with an acute accent (code
  point 233): both placeholders of the first template are replaced.
\<close>

theorem substitute_variables_placeholders_witness:
  "substitute_variables word_char (PStr (''/{'' @ [CHR 0xE9] @ ''}/{id}/{x}''))
     [(''id'', PInt 42), ([CHR 0xE9], PStr ''p'')] = PStr ''/p/42/{x}'' \<and>
   substitute_variables word_char (PStr ''/plain'') [(''id'', PInt 42)] = PStr ''/plain'' \<and>
   substitute_variables word_char (PInt 7) [(''id'', PInt 42)] = PInt 7"
  using substitute_variables_placeholders
          [where isw = word_char and key = "[CHR 0xE9]" and pre = "''/''"
             and post = "''/{id}/{x}''" and vs = "[(''id'', PInt 42), ([CHR 0xE9], PStr ''p'')]"
             and s = "''/plain''" and template = "PInt 7"]
        substitute_variables_placeholders
          [where isw = word_char and key = "''id''" and pre = "''/plain''"
             and post = "[]" and vs = "[(''id'', PInt 42)]"
             and s = "''/plain''" and template = "PInt 7"]
  by (simp add: word_char_def dict_get_def replace_match_def str_int_def digits.simps
        digit_char_def)

section \<open>The collector's counters\<close>

lemma record_results_snoc:
  "record_results s (rs @ [r]) =
     record_test_result (record_results s rs) (test_name r) (status r) (result_time_ms r)
       (details r) (error_message r)"
  by (simp add: record_results_def)

lemma record_test_result_fields:
  "test_results (record_test_result s n st rt d m) =
     test_results s @ [\<lparr>test_name = n, status = st, result_time_ms = rt, details = d, error_message = m\<rparr>]"
  "total_tests (record_test_result s n st rt d m) = Suc (total_tests s)"
  "passed_tests (record_test_result s n st rt d m) =
     (if st = ''PASS'' then Suc (passed_tests s) else passed_tests s)"
  "failed_tests (record_test_result s n st rt d m) =
     (if st = ''FAIL'' \<or> st = ''ERROR'' then Suc (failed_tests s) else failed_tests s)"
  "skipped_tests (record_test_result s n st rt d m) =
     (if st = ''SKIP'' then Suc (skipped_tests s) else skipped_tests s)"
  by (simp_all add: record_test_result_def Let_def)

lemma counters_follow_results:
  "test_results (record_results StatsCollector rs) = rs \<and>
   total_tests (record_results StatsCollector rs) = length rs \<and>
   passed_tests (record_results StatsCollector rs) = count_status [''PASS''] rs \<and>
   failed_tests (record_results StatsCollector rs) = count_status [''FAIL'', ''ERROR''] rs \<and>
   skipped_tests (record_results StatsCollector rs) = count_status [''SKIP''] rs"
proof (induction rs rule: rev_induct)
  case Nil
  show ?case by (simp add: record_results_def StatsCollector_def count_status_def)
next
  case (snoc r rs)
  then show ?case
    by (simp add: record_results_snoc record_test_result_fields count_status_def)
qed

lemma count_split:
  "list_all (\<lambda>r. valid_status (status r)) rs \<Longrightarrow>
   length rs = count_status [''PASS''] rs + count_status [''FAIL'', ''ERROR''] rs + count_status [''SKIP''] rs"
  by (induction rs) (auto simp: count_status_def valid_status_def)

text \<open>
  C8. After any sequence of recorded results whose statuses are among PASS, FAIL, SKIP
  and ERROR, the total is the sum of the passed, failed and skipped counters, with ERROR
  counted as failed, and the counters are those of the recorded sequence: the sequence is
  what was recorded, in order, the total is its length and each counter is the number of
  its entries with that status.
\<close>

theorem counters_agree:
  assumes "list_all (\<lambda>r. valid_status (status r)) rs"
  shows "total_tests (record_results StatsCollector rs) =
           passed_tests (record_results StatsCollector rs) +
           failed_tests (record_results StatsCollector rs) +
           skipped_tests (record_results StatsCollector rs) \<and>
         test_results (record_results StatsCollector rs) = rs \<and>
         total_tests (record_results StatsCollector rs) = length rs \<and>
         passed_tests (record_results StatsCollector rs) = count_status [''PASS''] rs \<and>
         failed_tests (record_results StatsCollector rs) = count_status [''FAIL'', ''ERROR''] rs \<and>
         skipped_tests (record_results StatsCollector rs) = count_status [''SKIP''] rs"
  using counters_follow_results [of rs] count_split [OF assms] by simp

theorem counters_agree_witness:
  "total_tests (record_results StatsCollector ex_results) = 3 \<and>
   passed_tests (record_results StatsCollector ex_results) = 1 \<and>
   failed_tests (record_results StatsCollector ex_results) = 1 \<and>
   skipped_tests (record_results StatsCollector ex_results) = 1 \<and>
   test_results (record_results StatsCollector ex_results) = ex_results"
  using counters_agree [of ex_results]
  by (simp add: ex_results_def valid_status_def count_status_def)

section \<open>The request dispatcher\<close>

lemma dict_update_Nil: "dict_update d [] = d"
  by (simp add: dict_update_def)

lemma dict_update_snoc: "dict_update d (e @ [p]) = dict_set (fst p) (snd p) (dict_update d e)"
  by (simp add: dict_update_def)

lemma map_of_dict_set: "map_of (dict_set k v d) = (map_of d)(k \<mapsto> v)"
  by (induction d) (auto simp: fun_eq_iff)

lemma dict_get_dict_update:
  "dict_get (dict_update d e) k =
     (case dict_get (rev e) k of Some v \<Rightarrow> Some v | None \<Rightarrow> dict_get d k)"
proof (induction e rule: rev_induct)
  case Nil
  show ?case by (simp add: dict_update_Nil dict_get_def)
next
  case (snoc p e)
  then show ?case
    by (cases p) (simp add: dict_update_snoc dict_get_def map_of_dict_set)
qed

lemma current_params_merged: "current_params tc ov = merged_params tc ov"
  by (cases ov) (auto simp: current_params_def merged_params_def truthy_def dict_update_Nil Let_def)

text \<open>
  What \<open>send_request\<close> does with each outcome of the transport. For a received response,
  whatever its status code, success is true and status code, headers and body are those
  of the response. For an exception of the \<open>requests\<close> library the status code is absent,
  the headers are empty, success is false, the measured time is recorded, and the
  classification follows the order of the \<open>except\<close> clauses: \<open>Timeout\<close> for a timeout,
  \<open>ConnectionError\<close> for a connection failure that is not a timeout, the exception's text
  otherwise; the body is the diagnostic string of that case. Any other exception leaves
  \<open>send_request\<close>.
\<close>

lemma send_request_classifies:
  "(fst (http_request w (build_request self verb path hdrs data params)) = Response code hs body \<longrightarrow>
      fst (send_request w self verb path hdrs data params sent_before) =
        Inr \<lparr>status_code = Some code, headers = hs, content = body,
             response_time_ms = snd (http_request w (build_request self verb path hdrs data params)),
             success = True, error = None\<rparr>) \<and>
   (fst (http_request w (build_request self verb path hdrs data params)) = Raises e \<longrightarrow>
      fst (send_request w self verb path hdrs data params sent_before) =
        Inr \<lparr>status_code = None, headers = [],
             content = (if is_timeout e then ''Request Timed Out''
                        else if is_connection_error e then ''Connection Error''
                        else ''An unexpected request error occurred: '' @ reason e),
             response_time_ms = snd (http_request w (build_request self verb path hdrs data params)),
             success = False,
             error = Some (if is_timeout e then ''Timeout''
                           else if is_connection_error e then ''ConnectionError''
                           else reason e)\<rparr>) \<and>
   (fst (http_request w (build_request self verb path hdrs data params)) = Escapes exn \<longrightarrow>
      fst (send_request w self verb path hdrs data params sent_before) = Inl exn)"
  by (simp add: send_request_def Let_def)

lemma send_request_examples:
  "fst (send_request ex_world ex_client ''GET'' ''/slow'' None PNone None []) =
     Inr \<lparr>status_code = None, headers = [], content = ''Request Timed Out'',
          response_time_ms = 5000, success = False, error = Some ''Timeout''\<rparr> \<and>
   fst (send_request ex_world ex_client ''GET'' ''/down'' None PNone None []) =
     Inr \<lparr>status_code = None, headers = [], content = ''Connection Error'',
          response_time_ms = 3, success = False, error = Some ''ConnectionError''\<rparr> \<and>
   fst (send_request ex_world ex_client ''GET'' ''/loop'' None PNone None []) =
     Inr \<lparr>status_code = None, headers = [],
          content = ''An unexpected request error occurred: Exceeded 30 redirects.'',
          response_time_ms = 40, success = False, error = Some ''Exceeded 30 redirects.''\<rparr> \<and>
   fst (send_request ex_world ex_client ''GET'' ''/orders'' None PNone None []) =
     Inr \<lparr>status_code = Some 400, headers = [], content = ''<error>bad order</error>'',
          response_time_ms = 12, success = True, error = None\<rparr>"
  by (simp add: send_request_def build_request_def build_url_def ex_world_def
        ex_transport_def ex_client_def dict_update_def Let_def)

text \<open>
  C4 fails on the code. The \<open>except\<close> clauses of \<open>send_request\<close> name classes of the
  \<open>requests\<close> library only. A body that is the number 5 reaches the client unchanged,
  since the substitution returns what is not a string as it is, and \<open>requests.request\<close>
  refuses it with \<open>TypeError\<close>; a configured timeout of 0 is refused with \<open>ValueError\<close>.
  Either exception leaves \<open>send_request\<close>, and with it \<open>run_tests\<close>: no outcome record is
  returned and no test case of the run has a result.
\<close>

theorem send_request_raises:
  "fst (send_request ex_world ex_client ''POST'' ''/orders'' None (PInt 5) None []) =
     Inl TypeError \<and>
   fst (send_request ex_world (ex_client\<lparr>timeout := 0\<rparr>) ''GET'' ''/items/1'' None PNone
          None []) = Inl ValueError \<and>
   run_tests ex_world ex_client
     [ex_case\<lparr>tc_verb := Some ''post'', tc_body := PInt 5\<rparr>, ex_case\<lparr>tc_name := Some ''B''\<rparr>]
     None None ex_state =
     (Some TypeError,
      [ex_case\<lparr>tc_verb := Some ''post'', tc_body := PInt 5\<rparr>, ex_case\<lparr>tc_name := Some ''B''\<rparr>],
      \<lparr>collector = StatsCollector,
       network = [\<lparr>rq_verb = ''POST'', rq_url = ''http://api/items/1'', rq_headers = [],
                   rq_data = PInt 5, rq_params = Some [(''id'', PInt 1)],
                   rq_timeout = 10\<rparr>]\<rparr>)"
  by (simp add: run_tests_def model_defs digits.simps Let_def)

section \<open>Executed test cases\<close>

lemma run_test_case_executed:
  assumes "\<not> (truthy names \<and> test_name_of tc \<notin> set (the names))" and "truthy (tc_path tc)"
  shows "run_test_case w client names ov tc st =
     (case fst (dispatch w client tc (current_params tc ov) (network st)) of
        Inl exn \<Rightarrow>
          (Some exn, apply_overrides tc ov,
           st\<lparr>network := snd (dispatch w client tc (current_params tc ov) (network st))\<rparr>)
      | Inr rsp \<Rightarrow>
          (case evaluate_response w (tc_expected_status tc) (tc_validation_xpath tc)
                  (tc_validation_regex tc) rsp of
             Inl exn \<Rightarrow>
               (Some exn, apply_overrides tc ov,
                st\<lparr>network := snd (dispatch w client tc (current_params tc ov) (network st))\<rparr>)
           | Inr (test_status, det, msg) \<Rightarrow>
               (None, apply_overrides tc ov,
                \<lparr>collector = record_test_result (collector st) (test_name_of tc) test_status
                   (Some (response_time_ms rsp)) (Some det) msg,
                 network = snd (dispatch w client tc (current_params tc ov) (network st))\<rparr>)))"
  using assms by (auto simp add: run_test_case_def Let_def)

lemma snd_dispatch:
  "snd (dispatch w client tc params sent_before) =
     sent_before @
     [build_request client (upper (case tc_verb tc of Some m \<Rightarrow> m | None \<Rightarrow> ''GET''))
        (re_sub_placeholders (re_word w) params (the (tc_path tc)))
        (Some (map (\<lambda>p. (fst p, substitute_variables (re_word w) (snd p) params))
                 (case tc_headers tc of Some h \<Rightarrow> h | None \<Rightarrow> [])))
        (substitute_variables (re_word w) (tc_body tc) params) (Some params)]"
  by (simp add: dispatch_def send_request_def Let_def)

lemma network_executed:
  assumes "\<not> (truthy names \<and> test_name_of tc \<notin> set (the names))" and "truthy (tc_path tc)"
  shows "network (snd (snd (run_test_case w client names ov tc st))) =
           snd (dispatch w client tc (current_params tc ov) (network st))"
  unfolding run_test_case_executed [OF assms]
  by (simp split: sum.splits prod.splits)

text \<open>
  C10. A test case that is neither skipped nor without a path issues exactly one
  request, and the query parameters of that request are the merged mapping (the case's
  defaults overlaid by the run's overrides, an override winning over a default), the
  same mapping that resolved the placeholders of the path, the body and the headers.
\<close>

theorem request_carries_merged_params:
  assumes "\<not> (truthy names \<and> test_name_of tc \<notin> set (the names))" and "truthy (tc_path tc)"
  shows "network (snd (snd (run_test_case w client names ov tc st))) =
           network st @
           [\<lparr>rq_verb = upper (case tc_verb tc of Some m \<Rightarrow> m | None \<Rightarrow> ''GET''),
             rq_url = base_url client @
                      re_sub_placeholders (re_word w) (merged_params tc ov) (the (tc_path tc)),
             rq_headers =
               dict_update (default_headers client)
                 (map (\<lambda>p. (fst p, substitute_variables (re_word w) (snd p)
                                      (merged_params tc ov)))
                    (case tc_headers tc of Some h \<Rightarrow> h | None \<Rightarrow> [])),
             rq_data = substitute_variables (re_word w) (tc_body tc) (merged_params tc ov),
             rq_params = Some (merged_params tc ov),
             rq_timeout = timeout client\<rparr>] \<and>
         dict_get (merged_params tc ov) k =
           (case dict_get (rev (case ov of Some e \<Rightarrow> e | None \<Rightarrow> [])) k of
              Some v \<Rightarrow> Some v
            | None \<Rightarrow> dict_get (case tc_params tc of Some p \<Rightarrow> p | None \<Rightarrow> []) k)"
  using network_executed [OF assms, of w client ov st]
  by (simp add: snd_dispatch current_params_merged build_request_def build_url_def
        dict_get_dict_update [of _ _ k, folded merged_params_def] merged_params_def)

text \<open>
  The example case run with the override \<open>id = 2\<close>.
\<close>

theorem request_carries_merged_params_witness:
  "network (snd (snd (run_test_case ex_world ex_client None (Some [(''id'', PInt 2)]) ex_case ex_state))) =
     [\<lparr>rq_verb = ''GET'', rq_url = ''http://api/items/2'', rq_headers = [], rq_data = PNone,
       rq_params = Some [(''id'', PInt 2)], rq_timeout = 10\<rparr>] \<and>
   dict_get (merged_params ex_case (Some [(''id'', PInt 2)])) ''id'' = Some (PInt 2)"
  using request_carries_merged_params [where names = None and tc = ex_case and w = ex_world
          and client = ex_client and ov = "Some [(''id'', PInt 2)]" and st = ex_state
          and k = "''id''"]
  by (simp add: truthy_def ex_case_def ex_client_def ex_state_def ex_world_def
        merged_params_def dict_update_def dict_get_def upper_def upper_char_def
        substitute_variables_def word_char_def replace_match_def str_int_def digits.simps
        digit_char_def)

section \<open>The inclusion list\<close>

text \<open>
  C9, as amended. With a non-empty inclusion list, a test case whose name is not in
  the list is recorded once, with status SKIP and the fixed message; no request is
  issued, the test case is not touched and nothing else changes. A test case whose
  name is in the list is processed as in a run without a list.
\<close>

theorem inclusion_list_gate:
  assumes "names \<noteq> []"
  shows "(test_name_of tc \<notin> set names \<longrightarrow>
            run_test_case w client (Some names) ov tc st =
              (None, tc,
               st\<lparr>collector :=
                    record_test_result (collector st) (test_name_of tc) ''SKIP'' None None
                      (Some ''Test not in run list.'')\<rparr>)) \<and>
         (test_name_of tc \<in> set names \<longrightarrow>
            run_test_case w client (Some names) ov tc st =
              run_test_case w client None ov tc st)"
  using assms by (simp add: run_test_case_def truthy_def)

text \<open>
  The list \<open>["A"]\<close> with a case named B and with the case named A.
\<close>

theorem inclusion_list_gate_witness:
  "run_test_case ex_world ex_client (Some [''A'']) None (ex_case\<lparr>tc_name := Some ''B''\<rparr>) ex_state =
     (None, ex_case\<lparr>tc_name := Some ''B''\<rparr>,
      \<lparr>collector =
         \<lparr>total_tests = 1, passed_tests = 0, failed_tests = 0, skipped_tests = 1,
          test_results =
            [\<lparr>test_name = ''B'', status = ''SKIP'', result_time_ms = None, details = None,
              error_message = Some ''Test not in run list.''\<rparr>]\<rparr>,
       network = []\<rparr>) \<and>
   run_test_case ex_world ex_client (Some [''A'']) None ex_case ex_state =
     run_test_case ex_world ex_client None None ex_case ex_state"
  using inclusion_list_gate [where names = "[''A'']" and tc = "ex_case\<lparr>tc_name := Some ''B''\<rparr>"
          and w = ex_world and client = ex_client and ov = None and st = ex_state]
        inclusion_list_gate [where names = "[''A'']" and tc = ex_case
          and w = ex_world and client = ex_client and ov = None and st = ex_state]
  by (simp add: test_name_of_def ex_case_def ex_state_def record_test_result_def
        StatsCollector_def)

text \<open>
  C9 as stated fails for the empty list, which is what \<open>-t\<close> without names
  supplies: the case named B is absent from it, and yet it is run, it sends its request
  and it passes.
\<close>

theorem empty_inclusion_list_counterexample:
  "test_name_of (ex_case\<lparr>tc_name := Some ''B''\<rparr>) \<notin> set [] \<and>
   map status (test_results (collector (snd (snd
     (run_test_case ex_world ex_client (Some []) None (ex_case\<lparr>tc_name := Some ''B''\<rparr>)
        ex_state))))) = [''PASS''] \<and>
   map rq_url (network (snd (snd
     (run_test_case ex_world ex_client (Some []) None (ex_case\<lparr>tc_name := Some ''B''\<rparr>)
        ex_state)))) = [''http://api/items/1'']"
  by (simp add: model_defs digits.simps Let_def)

section \<open>The status check\<close>

lemma evaluate_response_status_mismatch:
  assumes "success rsp" and "e \<noteq> 0" and "status_code rsp = Some c" and "c \<noteq> e"
  shows "evaluate_response w (Some e) vx vr rsp =
           Inr (''FAIL'',
                \<lparr>d_status_code = Some c, d_response_time_ms = response_time_ms rsp,
                 d_response_success = True, validation_results = []\<rparr>,
                Some (''Expected status '' @ str_int e @ '', got '' @ str_int c))"
  using assms by (simp add: evaluate_response_def truthy_int_def)

text \<open>
  C7, as amended. For an executed test case whose expected status is declared and is
  not 0: when the request succeeds with another status code, the case is recorded with
  status FAIL and the message \<open>Expected status e, got c\<close>, and the validation results
  of its details are empty: the result does not depend on the parser or on the
  validators.
\<close>

theorem status_mismatch_fails:
  assumes "\<not> (truthy names \<and> test_name_of tc \<notin> set (the names))"
    and "truthy (tc_path tc)"
    and "tc_expected_status tc = Some e" and "e \<noteq> 0"
    and "fst (dispatch w client tc (current_params tc ov) (network st)) = Inr rsp"
    and "success rsp"
    and "status_code rsp = Some c"
    and "c \<noteq> e"
  shows "run_test_case w client names ov tc st =
           (None, apply_overrides tc ov,
            \<lparr>collector =
               record_test_result (collector st) (test_name_of tc) ''FAIL''
                 (Some (response_time_ms rsp))
                 (Some \<lparr>d_status_code = Some c,
                        d_response_time_ms = response_time_ms rsp,
                        d_response_success = True, validation_results = []\<rparr>)
                 (Some (''Expected status '' @ str_int e @ '', got '' @ str_int c)),
             network = snd (dispatch w client tc (current_params tc ov) (network st))\<rparr>)"
  unfolding run_test_case_executed [OF assms(1,2)] assms(3) assms(5)
  by (simp add: evaluate_response_status_mismatch [OF assms(6,4,7,8)])

text \<open>
  Expected 201, received 400.
\<close>

theorem status_mismatch_fails_witness:
  "test_results (collector (snd (snd (run_test_case ex_world ex_client None None ex_order ex_state)))) =
     [\<lparr>test_name = ''A'', status = ''FAIL'', result_time_ms = Some 12,
       details = Some \<lparr>d_status_code = Some 400, d_response_time_ms = 12,
                       d_response_success = True, validation_results = []\<rparr>,
       error_message = Some ''Expected status 201, got 400''\<rparr>]"
  using status_mismatch_fails [where names = None and tc = ex_order and w = ex_world
          and client = ex_client and ov = None and st = ex_state and e = 201 and c = 400
          and rsp = "\<lparr>status_code = Some 400, headers = [],
                       content = ''<error>bad order</error>'', response_time_ms = 12,
                       success = True, error = None\<rparr>"]
  by (simp add: ex_order_def model_defs digits.simps Let_def)

text \<open>
  C7 as stated fails in two places. An expected status of 0 counts as not declared:
  the example case then passes although the server answered 200. And the message for
  201 against 400 is \<open>Expected status 201, got 400\<close>, which does not contain the text
  \<open>expected 201, got 400\<close> of the claim.
\<close>

theorem status_mismatch_counterexample:
  "map status (test_results (collector (snd (snd
     (run_test_case ex_world ex_client None None (ex_case\<lparr>tc_expected_status := Some 0\<rparr>)
        ex_state))))) = [''PASS''] \<and>
   map error_message (test_results (collector (snd (snd
     (run_test_case ex_world ex_client None None ex_order ex_state))))) =
     [Some ''Expected status 201, got 400''] \<and>
   \<not> contains ''Expected status 201, got 400'' ''expected 201, got 400''"
  by (simp add: ex_order_def model_defs digits.simps Let_def)

section \<open>The validation phase\<close>

lemma evaluate_response_validation:
  assumes "success rsp" and "\<not> (truthy_int es \<and> status_code rsp \<noteq> es)"
    and "\<not> (XMLParser w (content rsp) = None \<and> content rsp \<noteq> [])"
    and "x \<noteq> []" and "r \<noteq> []"
    and "validate_content_regex w (XMLParser w (content rsp)) r = Inr rb"
    and "validate_xpath_like w (XMLParser w (content rsp)) x = xb"
  shows "evaluate_response w es (Some x) (Some r) rsp =
           Inr (if xb \<and> rb then ''PASS'' else ''FAIL'',
                \<lparr>d_status_code = status_code rsp, d_response_time_ms = response_time_ms rsp,
                 d_response_success = True,
                 validation_results =
                   [(''xml_parseable'', True), (''xpath_validation'', xb),
                    (''regex_validation'', rb)]\<rparr>,
                if xb \<and> rb then None
                else Some (join_reasons
                  ((if xb then [] else [''XPath validation failed for '' @ quoted x]) @
                   (if rb then [] else [''Regex validation failed for '' @ quoted r]))))"
proof -
  have st: "status_code rsp = es \<or> \<not> truthy_int es"
    using assms(2) by blast
  show ?thesis
    using assms(1,3-7) st
    by (cases xb; cases rb)
       (auto simp add: evaluate_response_def xpath_step_def regex_step_def truthy_def
          add_reason_def Let_def)
qed

text \<open>
  C2, as amended. For an executed test case that reaches the validation phase (the
  request succeeded, the status check passed or was not made, the body was parsed or
  was empty) with a non-empty structural query and a non-empty regex pattern whose
  evaluation returns a boolean: both booleans are recorded in the details, also when the
  structural check has failed; the status is PASS if both are true and FAIL otherwise;
  and the error message is absent when both are true and otherwise joins the failed
  reasons, the structural one first, with a semicolon and a space.
\<close>

theorem validations_accumulate:
  assumes "\<not> (truthy names \<and> test_name_of tc \<notin> set (the names))"
    and "truthy (tc_path tc)"
    and "fst (dispatch w client tc (current_params tc ov) (network st)) = Inr rsp"
    and "success rsp"
    and "\<not> (truthy_int (tc_expected_status tc) \<and> status_code rsp \<noteq> tc_expected_status tc)"
    and "\<not> (XMLParser w (content rsp) = None \<and> content rsp \<noteq> [])"
    and "tc_validation_xpath tc = Some x" and "x \<noteq> []"
    and "tc_validation_regex tc = Some r" and "r \<noteq> []"
    and "validate_xpath_like w (XMLParser w (content rsp)) x = xb"
    and "validate_content_regex w (XMLParser w (content rsp)) r = Inr rb"
  shows "run_test_case w client names ov tc st =
           (None, apply_overrides tc ov,
            \<lparr>collector =
               record_test_result (collector st) (test_name_of tc)
                 (if xb \<and> rb then ''PASS'' else ''FAIL'')
                 (Some (response_time_ms rsp))
                 (Some \<lparr>d_status_code = status_code rsp,
                        d_response_time_ms = response_time_ms rsp,
                        d_response_success = True,
                        validation_results =
                          [(''xml_parseable'', True), (''xpath_validation'', xb),
                           (''regex_validation'', rb)]\<rparr>)
                 (if xb \<and> rb then None
                  else Some (join_reasons
                    ((if xb then [] else [''XPath validation failed for '' @ quoted x]) @
                     (if rb then [] else [''Regex validation failed for '' @ quoted r])))),
             network = snd (dispatch w client tc (current_params tc ov) (network st))\<rparr>)"
  unfolding run_test_case_executed [OF assms(1,2)] assms(7,9) assms(3)
  by (simp add: evaluate_response_validation [OF assms(4,5,6,8,10,12,11)])

text \<open>
  Both checks fail on the example document.
\<close>

theorem validations_accumulate_witness:
  "test_results (collector (snd (snd (run_test_case ex_world ex_client None None ex_failing ex_state)))) =
     [\<lparr>test_name = ''A'', status = ''FAIL'', result_time_ms = Some 8,
       details = Some \<lparr>d_status_code = Some 200, d_response_time_ms = 8,
                       d_response_success = True,
                       validation_results =
                         [(''xml_parseable'', True), (''xpath_validation'', False),
                          (''regex_validation'', False)]\<rparr>,
       error_message =
         Some (''XPath validation failed for '' @ quoted ''price'' @
               ''; Regex validation failed for '' @ quoted ''Gadget'')\<rparr>]"
  using validations_accumulate [where names = None and tc = ex_failing and w = ex_world
          and client = ex_client and ov = None and st = ex_state
          and rsp = "\<lparr>status_code = Some 200, headers = [],
                       content = ''<a><name>Widget</name></a>'', response_time_ms = 8,
                       success = True, error = None\<rparr>"
          and x = "''price''" and r = "''Gadget''" and xb = False and rb = False]
  by (simp add: ex_failing_def model_defs digits.simps Let_def)

text \<open>
  C2 as stated fails for a declared pattern or query that is the empty string: that
  check is not made and no boolean is recorded for it.
\<close>

theorem empty_pattern_counterexample:
  "tc_validation_regex (ex_case\<lparr>tc_validation_regex := Some []\<rparr>) = Some [] \<and>
   map details (test_results (collector (snd (snd
     (run_test_case ex_world ex_client None None (ex_case\<lparr>tc_validation_regex := Some []\<rparr>)
        ex_state))))) =
     [Some \<lparr>d_status_code = Some 200, d_response_time_ms = 8, d_response_success = True,
            validation_results = [(''xml_parseable'', True), (''xpath_validation'', True)]\<rparr>] \<and>
   tc_validation_xpath (ex_case\<lparr>tc_validation_xpath := Some []\<rparr>) = Some [] \<and>
   map details (test_results (collector (snd (snd
     (run_test_case ex_world ex_client None None (ex_case\<lparr>tc_validation_xpath := Some []\<rparr>)
        ex_state))))) =
     [Some \<lparr>d_status_code = Some 200, d_response_time_ms = 8, d_response_success = True,
            validation_results = [(''xml_parseable'', True), (''regex_validation'', True)]\<rparr>]"
  by (simp add: model_defs digits.simps Let_def)

section \<open>The attribute filter\<close>

lemma takeWhile_neq_append: "c \<notin> set xs \<Longrightarrow> takeWhile (\<lambda>d. d \<noteq> c) (xs @ c # ys) = xs"
  by (induction xs) auto

lemma dropWhile_neq_append: "c \<notin> set xs \<Longrightarrow> dropWhile (\<lambda>d. d \<noteq> c) (xs @ c # ys) = c # ys"
  by (induction xs) auto

lemma split_once_append: "c \<notin> set xs \<Longrightarrow> split_once c (xs @ c # ys) = Some (xs, ys)"
  by (simp add: split_once_def takeWhile_neq_append dropWhile_neq_append)

lemma split_once_None: "(split_once c s = None) = (c \<notin> set s)"
  by (simp add: split_once_def)

lemma dropWhile_all_append: "list_all P q \<Longrightarrow> dropWhile P (q @ ys) = dropWhile P ys"
  by (induction q) auto

lemma py_strip_quotes:
  assumes "list_all quote_char ql" and "list_all quote_char qr"
    and "v \<noteq> []" and "\<not> quote_char (hd v)" and "\<not> quote_char (last v)"
  shows "py_strip quote_char (ql @ v @ qr) = v"
proof -
  have a: "dropWhile quote_char (ql @ v @ qr) = v @ qr"
    using assms(1,3,4) by (cases v) (simp_all add: dropWhile_all_append)
  have b: "dropWhile quote_char (rev qr @ rev v) = rev v"
  proof -
    have "list_all quote_char (rev qr)" using assms(2) by (simp add: list_all_iff)
    then have "dropWhile quote_char (rev qr @ rev v) = dropWhile quote_char (rev v)"
      by (rule dropWhile_all_append)
    also have "\<dots> = rev v"
      using assms(3,5) by (cases v rule: rev_cases) simp_all
    finally show ?thesis .
  qed
  show ?thesis by (simp add: py_strip_def a b)
qed

lemma soup_find_all_nonempty:
  "(soup_find_all soup tag [(attr, v)] \<noteq> []) =
     (\<exists>a cs. Tag tag a cs \<in> set (all_tags soup) \<and> dict_get a attr = Some v)"
proof -
  have "(soup_find_all soup tag [(attr, v)] \<noteq> []) =
      (\<exists>n \<in> set (all_tags soup). tag_matches tag [(attr, v)] n)"
    by (simp add: soup_find_all_def filter_empty_conv)
  also have "\<dots> = (\<exists>a cs. Tag tag a cs \<in> set (all_tags soup) \<and> dict_get a attr = Some v)"
  proof
    assume "\<exists>n \<in> set (all_tags soup). tag_matches tag [(attr, v)] n"
    then obtain n where n: "n \<in> set (all_tags soup)" and m: "tag_matches tag [(attr, v)] n"
      by blast
    have "\<exists>a cs. n = Tag tag a cs \<and> dict_get a attr = Some v"
      using m by (cases n) simp_all
    with n show "\<exists>a cs. Tag tag a cs \<in> set (all_tags soup) \<and> dict_get a attr = Some v"
      by blast
  next
    assume "\<exists>a cs. Tag tag a cs \<in> set (all_tags soup) \<and> dict_get a attr = Some v"
    then obtain a cs where "Tag tag a cs \<in> set (all_tags soup)" "dict_get a attr = Some v"
      by blast
    then show "\<exists>n \<in> set (all_tags soup). tag_matches tag [(attr, v)] n"
      by (intro bexI [of _ "Tag tag a cs"]) simp_all
  qed
  finally show ?thesis .
qed

lemma attribute_filter_well_formed:
  assumes "CHR ''['' \<notin> set tag" and "CHR ''='' \<notin> set attr"
    and "list_all quote_char ql" and "list_all quote_char qr"
    and "v \<noteq> []" and "\<not> quote_char (hd v)" and "\<not> quote_char (last v)"
  shows "attribute_filter soup (tag @ ''['' @ attr @ ''='' @ ql @ v @ qr @ '']'') =
           Some (soup_find_all soup tag [(attr, v)] \<noteq> [])"
proof -
  let ?part = "attr @ CHR ''='' # ql @ v @ qr @ '']''"
  have s1: "split_once (CHR ''['') (tag @ CHR ''['' # ?part) = Some (tag, ?part)"
    using assms(1) by (rule split_once_append)
  have bl: "butlast ?part = attr @ CHR ''='' # ql @ v @ qr"
    by (simp add: butlast_append)
  have s2: "split_once (CHR ''='') (attr @ CHR ''='' # ql @ v @ qr) = Some (attr, ql @ v @ qr)"
    using assms(2) by (rule split_once_append)
  have st: "py_strip quote_char (ql @ v @ qr) = v"
    using assms(3-7) by (rule py_strip_quotes)
  have e: "tag @ ''['' @ attr @ ''='' @ ql @ v @ qr @ '']'' = tag @ CHR ''['' # ?part"
    by simp
  show ?thesis
    unfolding e attribute_filter_def s1
    by (simp add: bl s2 st del: butlast_append)
qed

lemma attribute_filter_falls_through:
  assumes "CHR ''['' \<in> set e" and "CHR '']'' \<in> set e"
  shows "(attribute_filter soup e = None) =
           (CHR ''='' \<notin> set (butlast (tl (dropWhile (\<lambda>c. c \<noteq> CHR ''['') e))))"
  using assms
  by (auto simp add: attribute_filter_def split_once_def split: option.splits)

text \<open>
  C1. A well-formed attribute filter is a non-empty tag without an opening bracket,
  an attribute name without an equals sign and a non-empty value that neither starts nor
  ends with a quote character, the value between optional quote characters. On a parsed
  document the validator's answer to it is whether some element of the tree has this
  name and this value of the attribute; the selector engine and the tag fallback of the
  world \<open>w\<close> play no part in it. For any expression with a bracket pair, the first step
  gives no answer exactly when the bracket part has no equals sign, and whenever it
  gives an answer that answer is the validator's.
\<close>

theorem attribute_filter_decides:
  assumes "tag \<noteq> []" and "CHR ''['' \<notin> set tag" and "CHR ''='' \<notin> set attr"
    and "list_all quote_char ql" and "list_all quote_char qr"
    and "v \<noteq> []" and "\<not> quote_char (hd v)" and "\<not> quote_char (last v)"
  shows "validate_xpath_like w (Some soup) (tag @ ''['' @ attr @ ''='' @ ql @ v @ qr @ '']'') =
           (\<exists>a cs. Tag tag a cs \<in> set (all_tags soup) \<and> dict_get a attr = Some v) \<and>
         (CHR ''['' \<in> set e \<and> CHR '']'' \<in> set e \<longrightarrow>
            (attribute_filter soup e = None) =
              (CHR ''='' \<notin> set (butlast (tl (dropWhile (\<lambda>c. c \<noteq> CHR ''['') e))))) \<and>
         (attribute_filter soup e = Some found \<longrightarrow> validate_xpath_like w (Some soup) e = found)"
  using attribute_filter_well_formed [OF assms(2-8), of soup]
    attribute_filter_falls_through [of e soup]
  by (simp add: validate_xpath_like_def soup_find_all_nonempty)

text \<open>
  The document of the source's example: \<open>item[id='i1']\<close> is found, \<open>status[id='i1']\<close>
  is not although there is a \<open>status\<close> element, and \<open>item[1]\<close> falls through.
\<close>

theorem attribute_filter_decides_witness:
  "validate_xpath_like ex_world (Some ex_order_soup) (''item[id='' @ quoted ''i1'' @ '']'') \<and>
   \<not> validate_xpath_like ex_world (Some ex_order_soup) (''status[id='' @ quoted ''i1'' @ '']'') \<and>
   attribute_filter ex_order_soup ''item[1]'' = None"
proof -
  have q: "list_all quote_char [CHR 0x27]" "\<not> quote_char (hd ''i1'')" "\<not> quote_char (last ''i1'')"
    by (simp_all add: quote_char_def)
  have tags: "all_tags ex_order_soup =
      [Tag ''root'' []
         [Tag ''order'' [(''id'', ''A1'')]
            [Tag ''item'' [(''id'', ''i1'')] [NavigableString ''Laptop''],
             Tag ''item'' [(''id'', ''i2'')] [NavigableString ''Mouse'']],
          Tag ''status'' [] [NavigableString ''active'']],
       Tag ''order'' [(''id'', ''A1'')]
         [Tag ''item'' [(''id'', ''i1'')] [NavigableString ''Laptop''],
          Tag ''item'' [(''id'', ''i2'')] [NavigableString ''Mouse'']],
       Tag ''item'' [(''id'', ''i1'')] [NavigableString ''Laptop''],
       Tag ''item'' [(''id'', ''i2'')] [NavigableString ''Mouse''],
       Tag ''status'' [] [NavigableString ''active'']]"
    by (simp add: ex_order_soup_def all_tags_def)
  have yes: "\<exists>a cs. Tag ''item'' a cs \<in> set (all_tags ex_order_soup) \<and>
      dict_get a ''id'' = Some ''i1''"
    unfolding tags
    by (intro exI [of _ "[(''id'', ''i1'')]"] exI [of _ "[NavigableString ''Laptop'']"])
       (simp add: dict_get_def)
  have no: "\<not> (\<exists>a cs. Tag ''status'' a cs \<in> set (all_tags ex_order_soup) \<and>
      dict_get a ''id'' = Some ''i1'')"
    unfolding tags by (auto simp add: dict_get_def)
  have item: "validate_xpath_like ex_world (Some ex_order_soup)
        (''item'' @ ''['' @ ''id'' @ ''='' @ [CHR 0x27] @ ''i1'' @ [CHR 0x27] @ '']'') \<and>
      (attribute_filter ex_order_soup ''item[1]'' = None) =
        (CHR ''='' \<notin> set (butlast (tl (dropWhile (\<lambda>c. c \<noteq> CHR ''['') ''item[1]''))))"
    using attribute_filter_decides [where tag = "''item''" and attr = "''id''"
            and ql = "[CHR 0x27]" and qr = "[CHR 0x27]" and v = "''i1''" and w = ex_world
            and soup = ex_order_soup and e = "''item[1]''" and found = True] q yes
    by simp
  have status: "\<not> validate_xpath_like ex_world (Some ex_order_soup)
        (''status'' @ ''['' @ ''id'' @ ''='' @ [CHR 0x27] @ ''i1'' @ [CHR 0x27] @ '']'')"
    using attribute_filter_decides [where tag = "''status''" and attr = "''id''"
            and ql = "[CHR 0x27]" and qr = "[CHR 0x27]" and v = "''i1''" and w = ex_world
            and soup = ex_order_soup and e = "''item[1]''" and found = True] q no
    by simp
  show ?thesis
    using item status by (simp add: quoted_def)
qed

section \<open>The loop over the test cases\<close>

text \<open>
  A run that no exception leaves records one result per test case, in the order of
  the definitions; and in a world whose transport raises nothing but exceptions of the
  \<open>requests\<close> library and whose regular expression engine accepts every pattern, no
  exception leaves the run.
\<close>

lemma test_results_record:
  "test_results (record_test_result s n st rt d m) =
     test_results s @ [\<lparr>test_name = n, status = st, result_time_ms = rt, details = d,
                         error_message = m\<rparr>]"
  by (simp add: record_test_result_def Let_def)

lemma run_test_case_one_result:
  assumes "run_test_case w client names ov tc st = (None, tc', st')"
  shows "map test_name (test_results (collector st')) =
           map test_name (test_results (collector st)) @ [test_name_of tc]"
  using assms
  by (auto simp add: run_test_case_def Let_def test_results_record
        split: if_splits sum.splits prod.splits)

lemma run_loop_one_result_each:
  "run_loop w client names ov tcs st = (None, tcs', st') \<Longrightarrow>
   map test_name (test_results (collector st')) =
     map test_name (test_results (collector st)) @ map test_name_of tcs"
proof (induction tcs arbitrary: st tcs' st')
  case Nil
  then show ?case by simp
next
  case (Cons tc tcs)
  obtain r tc1 st1 where one: "run_test_case w client names ov tc st = (r, tc1, st1)"
    by (cases "run_test_case w client names ov tc st") auto
  show ?case
  proof (cases r)
    case (Some exn)
    with Cons.prems one show ?thesis by simp
  next
    case None
    obtain r2 tcs2 st2 where rest: "run_loop w client names ov tcs st1 = (r2, tcs2, st2)"
      by (cases "run_loop w client names ov tcs st1") auto
    from Cons.prems one None rest have e: "r2 = None" "st2 = st'" by simp_all
    from Cons.IH [of st1 tcs2 st2] rest e
    have "map test_name (test_results (collector st')) =
        map test_name (test_results (collector st1)) @ map test_name_of tcs" by simp
    moreover from run_test_case_one_result [of w client names ov tc st tc1 st1] one None
    have "map test_name (test_results (collector st1)) =
        map test_name (test_results (collector st)) @ [test_name_of tc]" by simp
    ultimately show ?thesis by simp
  qed
qed

lemma run_test_case_no_exception:
  assumes "\<And>p s. re_search w p s \<noteq> None"
    and "\<And>rq exn. fst (http_request w rq) \<noteq> Escapes exn"
  shows "fst (run_test_case w client names ov tc st) = None"
proof -
  have v: "\<exists>b. validate_content_regex w soup p = Inr b" for soup p
  proof (cases soup)
    case None
    have "validate_content_regex w None p = Inr False"
      by (simp add: validate_content_regex_def)
    with None show ?thesis by blast
  next
    case (Some sp)
    obtain b where "re_search w p (bs_prettify w sp) = Some b"
      using assms(1) [of p "bs_prettify w sp"]
      by (cases "re_search w p (bs_prettify w sp)") auto
    with Some have "validate_content_regex w soup p =
        Inr (if bs_prettify w sp = [] then False else b)"
      by (simp add: validate_content_regex_def)
    then show ?thesis by blast
  qed
  have rs: "\<exists>v'. regex_step w soup p v = Inr v'" for soup p v
  proof -
    obtain b where "validate_content_regex w soup (the p) = Inr b" using v by blast
    then show ?thesis
      by (cases v) (auto simp add: regex_step_def Let_def)
  qed
  have e: "\<exists>res. evaluate_response w es vx vr rsp = Inr res" for es vx vr rsp
  proof -
    obtain v' where "regex_step w (XMLParser w (content rsp)) vr
        (xpath_step w (XMLParser w (content rsp)) vx (True, [(''xml_parseable'', True)], None)) =
        Inr v'"
      using rs by blast
    then show ?thesis
      by (cases v') (simp add: evaluate_response_def Let_def)
  qed
  have d: "\<exists>rsp. fst (send_request w client verb path hdrs data params sent) = Inr rsp"
    for verb path hdrs data params sent
  proof (cases "fst (http_request w (build_request client verb path hdrs data params))")
    case (Response code hs body)
    then show ?thesis by (simp add: send_request_def Let_def)
  next
    case (Raises x)
    then show ?thesis by (simp add: send_request_def Let_def)
  next
    case (Escapes x)
    with assms(2) [of "build_request client verb path hdrs data params" x]
    show ?thesis by simp
  qed
  have "\<exists>rsp. fst (dispatch w client tc (current_params tc ov) (network st)) = Inr rsp"
    unfolding dispatch_def Let_def by (rule d)
  then obtain rsp where
    r: "fst (dispatch w client tc (current_params tc ov) (network st)) = Inr rsp"
    by blast
  obtain res where "evaluate_response w (tc_expected_status tc) (tc_validation_xpath tc)
      (tc_validation_regex tc) rsp = Inr res"
    using e by blast
  with r show ?thesis
    by (cases res) (auto simp add: run_test_case_def Let_def)
qed

lemma run_loop_no_exception:
  assumes "\<And>p s. re_search w p s \<noteq> None"
    and "\<And>rq exn. fst (http_request w rq) \<noteq> Escapes exn"
  shows "fst (run_loop w client names ov tcs st) = None"
proof (induction tcs arbitrary: st)
  case Nil
  show ?case by simp
next
  case (Cons tc tcs)
  obtain tc1 st1 where one: "run_test_case w client names ov tc st = (None, tc1, st1)"
    using run_test_case_no_exception [OF assms, of client names ov tc st]
    by (cases "run_test_case w client names ov tc st") auto
  show ?case using one Cons.IH [of st1]
    by (auto split: prod.splits)
qed

text \<open>
  C3 fails on the code. The first case's pattern is a lone opening parenthesis,
  which \<open>re.search\<close> refuses with \<open>re.error\<close>; nothing catches it, so the run ends in the
  first round after the request was sent: neither of the two test cases has a
  result. (An exception that leaves \<open>send_request\<close> ends the run in the same way.)
\<close>

theorem invalid_pattern_aborts_run:
  "run_tests ex_world ex_client
     [ex_case\<lparr>tc_validation_regex := Some ''(''\<rparr>, ex_case\<lparr>tc_name := Some ''B''\<rparr>]
     None None ex_state =
     (Some RegexError,
      [ex_case\<lparr>tc_validation_regex := Some ''(''\<rparr>, ex_case\<lparr>tc_name := Some ''B''\<rparr>],
      \<lparr>collector = StatsCollector,
       network = [\<lparr>rq_verb = ''GET'', rq_url = ''http://api/items/1'', rq_headers = [],
                   rq_data = PNone, rq_params = Some [(''id'', PInt 1)], rq_timeout = 10\<rparr>]\<rparr>)"
  by (simp add: run_tests_def model_defs digits.simps Let_def)

section \<open>The stored default parameters\<close>

text \<open>
  C5 fails on the code. After a run with the override \<open>id = 2\<close> the test case's
  own parameters hold 2 instead of 1, and a later run without overrides requests item 2,
  where a run on the original definition requests item 1.
\<close>

theorem override_changes_stored_defaults:
  "fst (snd (run_tests ex_world ex_client [ex_case] None (Some [(''id'', PInt 2)]) ex_state)) =
     [ex_case\<lparr>tc_params := Some [(''id'', PInt 2)]\<rparr>] \<and>
   map rq_url (network (snd (snd
     (run_tests ex_world ex_client
        (fst (snd (run_tests ex_world ex_client [ex_case] None (Some [(''id'', PInt 2)]) ex_state)))
        None None ex_state)))) = [''http://api/items/2''] \<and>
   map rq_url (network (snd (snd
     (run_tests ex_world ex_client [ex_case] None None ex_state)))) = [''http://api/items/1'']"
  by (simp add: run_tests_def model_defs digits.simps Let_def)

end
